theory Spec2Isabelle
  imports Main "HOL-Library.Word"
begin

section \<open>Python strings and bytes\<close>

text \<open>
  A Python \<open>str\<close> is a sequence of Unicode code points, and the provider's source
  contains literals with code points above 255 (the label of the hash line).  A string
  is therefore modelled as the list of its code points; \<open>str\<close> embeds an ASCII literal.
  A \<open>bytes\<close> object is a list of 8-bit words.
\<close>

type_synonym pystr = "nat list"

type_synonym bytes = "8 word list"

definition str :: "string \<Rightarrow> pystr" where
  "str s = map of_char s"

text \<open>\<open>s.startswith(p)\<close>\<close>

fun startswith :: "pystr \<Rightarrow> pystr \<Rightarrow> bool" where
  "startswith s [] = True"
| "startswith [] (p # ps) = False"
| "startswith (c # cs) (p # ps) = (c = p \<and> startswith cs ps)"

text \<open>\<open>sub in s\<close>: the substring test.\<close>

fun str_in :: "pystr \<Rightarrow> pystr \<Rightarrow> bool" where
  "str_in sub [] = (sub = [])"
| "str_in sub (c # cs) = (startswith (c # cs) sub \<or> str_in sub cs)"

text \<open>
  \<open>s.replace(old, new)\<close>: every non-overlapping occurrence of \<open>old\<close>, found from left
  to right, is replaced by \<open>new\<close>.  For an empty \<open>old\<close> Python inserts \<open>new\<close> before
  every character and at the end.
\<close>

function str_replace :: "pystr \<Rightarrow> pystr \<Rightarrow> pystr \<Rightarrow> pystr" where
  "str_replace [] old new = (if old = [] then new else [])"
| "str_replace (c # cs) old new =
     (if old = [] then new @ c # str_replace cs old new
      else if startswith (c # cs) old
        then new @ str_replace (drop (length old) (c # cs)) old new
      else c # str_replace cs old new)"
  by pat_completeness auto
termination
  by (relation "measure (\<lambda>(s, old, new). length s)") (auto simp: neq_Nil_conv)

text \<open>
  \<open>c.isspace()\<close> for one code point: the characters that \<open>str.strip()\<close> removes.
\<close>

definition isspace :: "nat \<Rightarrow> bool" where
  "isspace c \<longleftrightarrow>
     (9 \<le> c \<and> c \<le> 13) \<or> (28 \<le> c \<and> c \<le> 32) \<or> c = 133 \<or> c = 160 \<or> c = 5760 \<or>
     (8192 \<le> c \<and> c \<le> 8202) \<or> c = 8232 \<or> c = 8233 \<or> c = 8239 \<or> c = 8287 \<or>
     c = 12288"

text \<open>\<open>s.strip()\<close>: leading and trailing whitespace removed.\<close>

definition strip :: "pystr \<Rightarrow> pystr" where
  "strip s = rev (dropWhile isspace (rev (dropWhile isspace s)))"

text \<open>
  \<open>s.splitlines()\<close>: the line boundaries are LF, CR, CR LF (one boundary), VT, FF,
  FS, GS, RS, NEL (U+0085), U+2028 and U+2029; the boundaries are dropped and a final
  boundary opens no empty last line.  The first argument of \<open>splitlines_from\<close> is the
  line read so far.
\<close>

definition is_linebreak :: "nat \<Rightarrow> bool" where
  "is_linebreak c \<longleftrightarrow>
     (10 \<le> c \<and> c \<le> 13) \<or> (28 \<le> c \<and> c \<le> 30) \<or> c = 133 \<or> c = 8232 \<or> c = 8233"

fun splitlines_from :: "pystr \<Rightarrow> pystr \<Rightarrow> pystr list" where
  "splitlines_from cur [] = (if cur = [] then [] else [cur])"
| "splitlines_from cur (c # cs) =
     (if c = 13 then
        (case cs of
           [] \<Rightarrow> [cur]
         | d # ds \<Rightarrow>
             if d = 10 then cur # splitlines_from [] ds else cur # splitlines_from [] cs)
      else if is_linebreak c then cur # splitlines_from [] cs
      else splitlines_from (cur @ [c]) cs)"

definition splitlines :: "pystr \<Rightarrow> pystr list" where
  "splitlines s = splitlines_from [] s"

section \<open>Exceptions\<close>

text \<open>
  The exceptions the provider distinguishes: \<open>subprocess.TimeoutExpired\<close>, which
  \<open>put\<close> handles on its own, and every other instance of \<open>Exception\<close>.  Each carries
  its message \<open>str(e)\<close>.  Interpreter-level \<open>BaseException\<close>s that are no \<open>Exception\<close>
  (\<open>KeyboardInterrupt\<close>, \<open>SystemExit\<close>) are asynchronous and not modelled.
\<close>

datatype exn = TimeoutExpired pystr | Exception pystr

fun str_of_exn :: "exn \<Rightarrow> pystr" where
  "str_of_exn (TimeoutExpired msg) = msg"
| "str_of_exn (Exception msg) = msg"

text \<open>
  \<open>s.split(sep)\<close> raises \<open>ValueError\<close> for an empty separator; otherwise it cuts \<open>s\<close> at
  every non-overlapping occurrence of \<open>sep\<close> from left to right.  The first argument of
  \<open>split_from\<close> is the piece read so far.
\<close>

function split_from :: "pystr \<Rightarrow> pystr \<Rightarrow> pystr \<Rightarrow> pystr list" where
  "split_from cur [] sep = [cur]"
| "split_from cur (c # cs) sep =
     (if sep \<noteq> [] \<and> startswith (c # cs) sep
        then cur # split_from [] (drop (length sep) (c # cs)) sep
      else split_from (cur @ [c]) cs sep)"
  by pat_completeness auto
termination
  by (relation "measure (\<lambda>(cur, s, sep). length s)") (auto simp: neq_Nil_conv)

definition str_split :: "pystr \<Rightarrow> pystr \<Rightarrow> exn + pystr list" where
  "str_split s sep =
     (if sep = [] then Inl (Exception (str ''empty separator''))
      else Inr (split_from [] s sep))"

text \<open>\<open>xs[1]\<close> raises \<open>IndexError\<close> on a list of fewer than two elements.\<close>

definition item1 :: "pystr list \<Rightarrow> exn + pystr" where
  "item1 xs =
     (case xs of
        _ # x # _ \<Rightarrow> Inr x
      | _ \<Rightarrow> Inl (Exception (str ''list index out of range'')))"

text \<open>\<open>line.split(label)[1].strip()\<close>\<close>

definition field_after :: "pystr \<Rightarrow> pystr \<Rightarrow> exn + pystr" where
  "field_after line label =
     (case str_split line label of
        Inl e \<Rightarrow> Inl e
      | Inr parts \<Rightarrow> (case item1 parts of Inl e \<Rightarrow> Inl e | Inr x \<Rightarrow> Inr (strip x)))"

section \<open>The outside world\<close>

text \<open>
  The provider acts on the file system, runs the pinning tool and calls HTTP gateways.
  The state records the temporary directories that exist and every call made, in
  order.  What the outside answers to a call is given by an environment \<open>env\<close>; it is
  arbitrary in all theorems.  Console output (\<open>print\<close>) is not modelled.
\<close>

datatype event =
    CallMkdtemp pystr
  | CallWriteBytes pystr bytes
  | CallRun "pystr list" nat
  | CallRmtree pystr
  | CallGet pystr nat

record world =
  dirs :: "pystr set"
  calls :: "event list"

record completed_process =
  returncode :: int
  stdout :: pystr
  stderr :: pystr

record response =
  status_code :: int
  headers :: "pystr \<rightharpoonup> pystr"
  content :: bytes

record env =
  mkdtemp_outcome :: "pystr \<Rightarrow> exn + pystr"
  write_bytes_outcome :: "pystr \<Rightarrow> bytes \<Rightarrow> exn option"
  run_outcome :: "pystr list \<Rightarrow> exn + completed_process"
  rmtree_outcome :: "pystr \<Rightarrow> bool"
  import_requests_outcome :: "exn option"
  requests_get_outcome :: "pystr \<Rightarrow> exn + response"

text \<open>A computation takes the state and returns a value or an exception, and the new state.\<close>

type_synonym 'a io = "world \<Rightarrow> (exn + 'a) \<times> world"

definition io_return :: "'a \<Rightarrow> 'a io" where
  "io_return x w = (Inr x, w)"

definition io_raise :: "exn \<Rightarrow> 'a io" where
  "io_raise e w = (Inl e, w)"

definition io_bind :: "'a io \<Rightarrow> ('a \<Rightarrow> 'b io) \<Rightarrow> 'b io" where
  "io_bind m f w = (case m w of (Inl e, w') \<Rightarrow> (Inl e, w') | (Inr x, w') \<Rightarrow> f x w')"

text \<open>A pure step inside a computation: its exception is raised, its value returned.\<close>

definition io_of :: "exn + 'a \<Rightarrow> 'a io" where
  "io_of r w = (r, w)"

text \<open>\<open>try: body except Exception as e: handler\<close>\<close>

definition try_except :: "'a io \<Rightarrow> (exn \<Rightarrow> 'a io) \<Rightarrow> 'a io" where
  "try_except body handler w =
     (case body w of (Inl e, w') \<Rightarrow> handler e w' | (Inr x, w') \<Rightarrow> (Inr x, w'))"

text \<open>
  \<open>try: body finally: cleanup\<close>: the cleanup runs whether the body returned or raised;
  an exception of the cleanup replaces the body's outcome.
\<close>

definition try_finally :: "'a io \<Rightarrow> unit io \<Rightarrow> 'a io" where
  "try_finally body cleanup w =
     (case body w of
        (r, w') \<Rightarrow>
          (case cleanup w' of (Inl e, w'') \<Rightarrow> (Inl e, w'') | (Inr u, w'') \<Rightarrow> (r, w'')))"

text \<open>\<open>tempfile.mkdtemp(prefix=...)\<close> creates a directory and returns its path.\<close>

definition mkdtemp :: "env \<Rightarrow> pystr \<Rightarrow> pystr io" where
  "mkdtemp e prefix w =
     (case mkdtemp_outcome e prefix of
        Inl x \<Rightarrow> (Inl x, w\<lparr>calls := calls w @ [CallMkdtemp prefix]\<rparr>)
      | Inr d \<Rightarrow> (Inr d, w\<lparr>dirs := insert d (dirs w), calls := calls w @ [CallMkdtemp prefix]\<rparr>))"

text \<open>\<open>Path.write_bytes(blob)\<close>\<close>

definition write_bytes :: "env \<Rightarrow> pystr \<Rightarrow> bytes \<Rightarrow> unit io" where
  "write_bytes e path blob w =
     (case write_bytes_outcome e path blob of
        Some x \<Rightarrow> (Inl x, w\<lparr>calls := calls w @ [CallWriteBytes path blob]\<rparr>)
      | None \<Rightarrow> (Inr (), w\<lparr>calls := calls w @ [CallWriteBytes path blob]\<rparr>))"

text \<open>\<open>subprocess.run(command, capture_output=True, text=True, timeout=t)\<close>\<close>

definition subprocess_run :: "env \<Rightarrow> pystr list \<Rightarrow> nat \<Rightarrow> completed_process io" where
  "subprocess_run e command timeout w =
     (run_outcome e command, w\<lparr>calls := calls w @ [CallRun command timeout]\<rparr>)"

text \<open>
  \<open>shutil.rmtree(path, ignore_errors=True)\<close> never raises: a removal that fails is
  ignored and leaves the directory.  The environment says whether the removal works.
\<close>

definition rmtree :: "env \<Rightarrow> pystr \<Rightarrow> unit io" where
  "rmtree e path w =
     (Inr (),
      w\<lparr>dirs := (if rmtree_outcome e path then dirs w - {path} else dirs w),
        calls := calls w @ [CallRmtree path]\<rparr>)"

text \<open>\<open>import requests\<close> inside \<open>get\<close>: the dependency is optional and may be missing.\<close>

definition import_requests :: "env \<Rightarrow> unit io" where
  "import_requests e w =
     (case import_requests_outcome e of Some x \<Rightarrow> (Inl x, w) | None \<Rightarrow> (Inr (), w))"

text \<open>\<open>requests.get(url, timeout=t)\<close>\<close>

definition requests_get :: "env \<Rightarrow> pystr \<Rightarrow> nat \<Rightarrow> response io" where
  "requests_get e url timeout w =
     (requests_get_outcome e url, w\<lparr>calls := calls w @ [CallGet url timeout]\<rparr>)"

section \<open>The storage provider\<close>

text \<open>\<open>StorageResult\<close>; the field \<open>size\<close> is named \<open>size_bytes\<close> here.\<close>

datatype mval = MNone | MStr pystr | MBool bool | MTags "(pystr \<times> pystr) list"

record StorageResult =
  success :: bool
  uri :: pystr
  hash :: pystr
  provider :: pystr
  cid :: pystr
  view_url :: pystr
  size_bytes :: int
  metadata :: "(pystr \<times> mval) list"
  error :: pystr

text \<open>The dataclass defaults: \<open>StorageResult(success=s)\<close>.\<close>

definition StorageResult_init :: "bool \<Rightarrow> StorageResult" where
  "StorageResult_init s =
     \<lparr>success = s, uri = [], hash = [], provider = [], cid = [], view_url = [],
      size_bytes = 0, metadata = [], error = []\<rparr>"

text \<open>The fixed configuration of a \<open>FilecoinPinStorageProvider\<close>.\<close>

record provider_config =
  filecoin_pin_path :: pystr
  auto_fund :: bool
  bare :: bool
  verbose :: bool
  private_key :: "pystr option"

definition filename_for_mime :: "pystr option \<Rightarrow> pystr" where
  "filename_for_mime mime =
     (if mime = Some (str ''application/json'') then str ''chaoschain_proof.json''
      else if (case mime of None \<Rightarrow> False | Some m \<Rightarrow> m \<noteq> [] \<and> startswith m (str ''text/''))
        then str ''chaoschain_payload.txt''
      else str ''chaoschain_payload.bin'')"

definition build_command :: "provider_config \<Rightarrow> pystr \<Rightarrow> pystr list" where
  "build_command self temp_path =
     [filecoin_pin_path self, str ''add'', temp_path]
     @ (if auto_fund self then [str ''--auto-fund''] else [])
     @ (if bare self then [str ''--bare''] else [])
     @ (if verbose self then [str ''--verbose''] else [])
     @ (case private_key self of
          None \<Rightarrow> []
        | Some k \<Rightarrow> if k \<noteq> [] then [str ''--private-key'', k] else [])"

subsection \<open>Parsing the tool's output\<close>

record parsed_output =
  root_cid :: "pystr option"
  piece_cid :: "pystr option"
  data_set_id :: "pystr option"
  transaction_hash :: "pystr option"
  file_size_display :: "pystr option"

definition ROOT_CID_LABEL :: pystr where
  "ROOT_CID_LABEL = str ''Root CID:''"

definition PIECE_CID_LABEL :: pystr where
  "PIECE_CID_LABEL = str ''Piece CID:''"

definition DATA_SET_ID_LABEL :: pystr where
  "DATA_SET_ID_LABEL = str ''Data Set ID:''"

definition HASH_LABEL :: pystr where
  "HASH_LABEL = str ''Hash:''"

text \<open>
  The prefix of the hash line as the source file has it: the code points U+00E2,
  U+201D, U+201A and a space, followed by \<open>Hash:\<close>.
\<close>

definition HASH_LINE_PREFIX :: pystr where
  "HASH_LINE_PREFIX = [226, 8221, 8218, 32] @ HASH_LABEL"

definition CONTENT_LOADED :: pystr where
  "CONTENT_LOADED = str ''IPFS content loaded (''"

text \<open>
  \<open>re.search(r"IPFS content loaded \(([^)]+)\)", line)\<close>, returning \<open>match.group(1)\<close>:
  the leftmost position where the literal is followed by a non-empty run of characters
  other than \<open>)\<close> and then by \<open>)\<close>.
\<close>

fun search_content_loaded :: "pystr \<Rightarrow> pystr option" where
  "search_content_loaded [] = None"
| "search_content_loaded (c # cs) =
     (if startswith (c # cs) CONTENT_LOADED then
        (let rest = drop (length CONTENT_LOADED) (c # cs);
             group1 = takeWhile (\<lambda>x. x \<noteq> 41) rest;
             after = dropWhile (\<lambda>x. x \<noteq> 41) rest
         in if group1 \<noteq> [] \<and> after \<noteq> [] then Some group1 else search_content_loaded cs)
      else search_content_loaded cs)"

text \<open>The loop of \<open>_parse_cli_output\<close> over the lines, with the five variables as a record.\<close>

fun parse_lines :: "pystr list \<Rightarrow> parsed_output \<Rightarrow> exn + parsed_output" where
  "parse_lines [] m = Inr m"
| "parse_lines (line # rest) m =
     (if str_in ROOT_CID_LABEL line then
        (case field_after line ROOT_CID_LABEL of
           Inl e \<Rightarrow> Inl e
         | Inr v \<Rightarrow> parse_lines rest (m\<lparr>root_cid := Some v\<rparr>))
      else if str_in PIECE_CID_LABEL line then
        (case field_after line PIECE_CID_LABEL of
           Inl e \<Rightarrow> Inl e
         | Inr v \<Rightarrow> parse_lines rest (m\<lparr>piece_cid := Some v\<rparr>))
      else if str_in DATA_SET_ID_LABEL line then
        (case field_after line DATA_SET_ID_LABEL of
           Inl e \<Rightarrow> Inl e
         | Inr v \<Rightarrow> parse_lines rest (m\<lparr>data_set_id := Some v\<rparr>))
      else if startswith (strip line) HASH_LINE_PREFIX then
        (case field_after line HASH_LABEL of
           Inl e \<Rightarrow> Inl e
         | Inr v \<Rightarrow> parse_lines rest (m\<lparr>transaction_hash := Some v\<rparr>))
      else if str_in CONTENT_LOADED line then
        (case search_content_loaded line of
           Some g \<Rightarrow> parse_lines rest (m\<lparr>file_size_display := Some g\<rparr>)
         | None \<Rightarrow> parse_lines rest m)
      else parse_lines rest m)"

definition parse_cli_output :: "pystr \<Rightarrow> exn + parsed_output" where
  "parse_cli_output output =
     parse_lines (splitlines output)
       \<lparr>root_cid = None, piece_cid = None, data_set_id = None, transaction_hash = None,
        file_size_display = None\<rparr>"

subsection \<open>\<open>put\<close>\<close>

definition PROVIDER_NAME :: pystr where
  "PROVIDER_NAME = str ''filecoin-pin''"

definition TEMP_PREFIX :: pystr where
  "TEMP_PREFIX = str ''chaoschain_filecoin_pin_''"

definition NO_ROOT_CID_ERROR :: pystr where
  "NO_ROOT_CID_ERROR = str ''filecoin-pin completed without returning a Root CID''"

definition COMMAND_FAILED_ERROR :: pystr where
  "COMMAND_FAILED_ERROR = str ''filecoin-pin command failed''"

definition TIMEOUT_ERROR :: pystr where
  "TIMEOUT_ERROR = str ''filecoin-pin command timed out after 5 minutes''"

definition failure :: "pystr \<Rightarrow> StorageResult" where
  "failure msg = (StorageResult_init False)\<lparr>provider := PROVIDER_NAME, error := msg\<rparr>"

definition opt_mval :: "pystr option \<Rightarrow> mval" where
  "opt_mval x = (case x of None \<Rightarrow> MNone | Some s \<Rightarrow> MStr s)"

text \<open>\<open>temp_dir / payload_filename\<close>\<close>

definition path_join :: "pystr \<Rightarrow> pystr \<Rightarrow> pystr" where
  "path_join d f = d @ str ''/'' @ f"

text \<open>
  What \<open>put\<close> makes of a completed process: the part of the inner \<open>try\<close> after the
  call of the tool.  It touches nothing outside, so it is a value or an exception.
\<close>

definition result_of_process ::
  "bytes \<Rightarrow> pystr option \<Rightarrow> (pystr \<times> pystr) list option \<Rightarrow> pystr \<Rightarrow> completed_process
     \<Rightarrow> exn + StorageResult" where
  "result_of_process blob mime tags payload_filename result =
     (if returncode result = 0 then
        (case parse_cli_output (stdout result) of
           Inl x \<Rightarrow> Inl x
         | Inr parsed \<Rightarrow>
             (case root_cid parsed of
                None \<Rightarrow> Inr (failure NO_ROOT_CID_ERROR)
              | Some root \<Rightarrow>
                  if root = [] then Inr (failure NO_ROOT_CID_ERROR)
                  else
                    (let dweb_url =
                       str ''https://'' @ root @ str ''.ipfs.dweb.link/'' @ payload_filename
                     in Inr
                       \<lparr>success = True,
                        uri = str ''ipfs://'' @ root,
                        hash = root,
                        provider = PROVIDER_NAME,
                        cid = root,
                        view_url = dweb_url,
                        size_bytes = int (length blob),
                        metadata =
                          [(str ''piece_cid'', opt_mval (piece_cid parsed)),
                           (str ''data_set_id'', opt_mval (data_set_id parsed)),
                           (str ''transaction_hash'', opt_mval (transaction_hash parsed)),
                           (str ''file_size_display'', opt_mval (file_size_display parsed)),
                           (str ''mime_type'', opt_mval mime),
                           (str ''tags'', MTags (case tags of None \<Rightarrow> [] | Some t \<Rightarrow> t)),
                           (str ''filecoin_pin'', MBool True),
                           (str ''payload_filename'', MStr payload_filename),
                           (str ''dweb_gateway_url'', MStr dweb_url)],
                        error = []\<rparr>)))
      else
        Inr (failure (if strip (stderr result) \<noteq> [] then strip (stderr result)
                      else COMMAND_FAILED_ERROR)))"

text \<open>The body of the outer \<open>try\<close> of \<open>put\<close>.\<close>

definition put_body ::
  "provider_config \<Rightarrow> env \<Rightarrow> bytes \<Rightarrow> pystr option \<Rightarrow> (pystr \<times> pystr) list option
     \<Rightarrow> StorageResult io" where
  "put_body self e blob mime tags =
     (let payload_filename = filename_for_mime mime in
      io_bind (mkdtemp e TEMP_PREFIX) (\<lambda>temp_dir.
        let temp_path = path_join temp_dir payload_filename in
        io_bind (write_bytes e temp_path blob) (\<lambda>_.
          try_finally
            (let command = build_command self temp_path in
             io_bind (subprocess_run e command 300) (\<lambda>result.
               io_of (result_of_process blob mime tags payload_filename result)))
            (rmtree e temp_dir))))"

text \<open>The two handlers of \<open>put\<close>, in the order of the source.\<close>

fun put_handler :: "exn \<Rightarrow> StorageResult io" where
  "put_handler (TimeoutExpired msg) = io_return (failure TIMEOUT_ERROR)"
| "put_handler (Exception msg) = io_return (failure (str ''Storage error: '' @ msg))"

definition put ::
  "provider_config \<Rightarrow> env \<Rightarrow> bytes \<Rightarrow> pystr option \<Rightarrow> (pystr \<times> pystr) list option
     \<Rightarrow> pystr option \<Rightarrow> StorageResult io" where
  "put self e blob mime tags idempotency_key =
     try_except (put_body self e blob mime tags) put_handler"

subsection \<open>\<open>get\<close>\<close>

record retrieval_metadata =
  content_type :: "pystr option"
  content_length :: "pystr option"
  gateway :: pystr

definition IPFS_SCHEME :: pystr where
  "IPFS_SCHEME = str ''ipfs://''"

definition gateways :: "pystr \<Rightarrow> pystr list" where
  "gateways c =
     [str ''https://ipfs.io/ipfs/'' @ c,
      str ''https://gateway.pinata.cloud/ipfs/'' @ c,
      str ''https://cloudflare-ipfs.com/ipfs/'' @ c,
      str ''https://dweb.link/ipfs/'' @ c]"

text \<open>
  One iteration of the loop of \<open>get\<close>: \<open>Some\<close> is the value the function returns from
  inside the loop, \<open>None\<close> means that the loop goes on with the next gateway.
\<close>

definition get_attempt :: "env \<Rightarrow> pystr \<Rightarrow> (bytes \<times> retrieval_metadata) option io" where
  "get_attempt e gateway_url =
     try_except
       (io_bind (requests_get e gateway_url 30) (\<lambda>response.
          if status_code response = 200 then
            io_return
              (Some (content response,
                 \<lparr>content_type = headers response (str ''Content-Type''),
                  content_length = headers response (str ''Content-Length''),
                  gateway = gateway_url\<rparr>))
          else io_return None))
       (\<lambda>x. io_return None)"

definition ALL_GATEWAYS_FAILED :: pystr where
  "ALL_GATEWAYS_FAILED = str ''Failed to retrieve from any IPFS gateway''"

fun get_loop :: "env \<Rightarrow> pystr list \<Rightarrow> (bytes \<times> retrieval_metadata) io" where
  "get_loop e [] = io_raise (Exception ALL_GATEWAYS_FAILED)"
| "get_loop e (gateway_url # rest) =
     io_bind (get_attempt e gateway_url)
       (\<lambda>r. case r of Some v \<Rightarrow> io_return v | None \<Rightarrow> get_loop e rest)"

definition get :: "env \<Rightarrow> pystr \<Rightarrow> (bytes \<times> retrieval_metadata) io" where
  "get e ipfs_uri =
     (let c = str_replace ipfs_uri IPFS_SCHEME [] in
      try_except
        (io_bind (import_requests e) (\<lambda>_. get_loop e (gateways c)))
        (\<lambda>x. io_raise (Exception (str ''Error retrieving from IPFS: '' @ str_of_exn x))))"

text \<open>
  A gateway fails when the request raises or the response has a status other than 200.
\<close>

definition gateway_fails :: "env \<Rightarrow> pystr \<Rightarrow> bool" where
  "gateway_fails e url =
     (case requests_get_outcome e url of Inl x \<Rightarrow> True | Inr r \<Rightarrow> status_code r \<noteq> 200)"

subsection \<open>\<open>verify\<close>\<close>

definition verify :: "pystr \<Rightarrow> pystr \<Rightarrow> bool" where
  "verify ipfs_uri expected_hash =
     (let c = str_replace ipfs_uri IPFS_SCHEME [];
          expected_cid = str_replace expected_hash IPFS_SCHEME []
      in c = expected_cid)"

text \<open>
  The specification's wording, for comparison with the code: the leading \<open>ipfs://\<close>
  prefix is stripped, and stripping is a no-op when the prefix is absent.
\<close>

definition spec_strip_prefix :: "pystr \<Rightarrow> pystr" where
  "spec_strip_prefix s =
     (if startswith s IPFS_SCHEME then drop (length IPFS_SCHEME) s else s)"

subsection \<open>\<open>json.dumps(data, indent=2)\<close> and \<open>upload_json\<close>\<close>

text \<open>
  The values \<open>json.dumps\<close> is applied to: \<open>None\<close>, booleans, integers, strings, lists
  and dictionaries with string keys, the items of a dictionary in insertion order.
  \<open>JOther t\<close> is an object of a type \<open>t\<close> that the encoder rejects with \<open>TypeError\<close>.
  Floating-point values are left out.
\<close>

datatype json =
    JNull
  | JBool bool
  | JInt int
  | JStr pystr
  | JList "json list"
  | JDict "(pystr \<times> json) list"
  | JOther pystr

definition hex_digit :: "nat \<Rightarrow> nat" where
  "hex_digit d = (if d < 10 then 48 + d else 87 + d)"

definition hex4 :: "nat \<Rightarrow> pystr" where
  "hex4 n =
     [hex_digit (n div 4096 mod 16), hex_digit (n div 256 mod 16),
      hex_digit (n div 16 mod 16), hex_digit (n mod 16)]"

text \<open>
  The escape of one character with \<open>ensure_ascii=True\<close>: the backslash (92) and the
  double quote (34) are escaped, printable ASCII is kept, and every other code point
  becomes \<open>\uXXXX\<close>, as a surrogate pair above U+FFFF.
\<close>

definition escape_char :: "nat \<Rightarrow> pystr" where
  "escape_char c =
     (if c = 92 then [92, 92]
      else if c = 34 then [92, 34]
      else if c = 8 then [92, 98]
      else if c = 12 then [92, 102]
      else if c = 10 then [92, 110]
      else if c = 13 then [92, 114]
      else if c = 9 then [92, 116]
      else if 32 \<le> c \<and> c \<le> 126 then [c]
      else if c < 65536 then [92, 117] @ hex4 c
      else
        (let n = c - 65536;
             s1 = 55296 + n div 1024 mod 1024;
             s2 = 56320 + n mod 1024
         in [92, 117] @ hex4 s1 @ [92, 117] @ hex4 s2))"

definition encode_basestring_ascii :: "pystr \<Rightarrow> pystr" where
  "encode_basestring_ascii s = [34] @ concat (map escape_char s) @ [34]"

function nat_repr :: "nat \<Rightarrow> pystr" where
  "nat_repr n = (if n < 10 then [48 + n] else nat_repr (n div 10) @ [48 + n mod 10])"
  by pat_completeness auto
termination
  by (relation "measure (\<lambda>n. n)") auto

definition int_repr :: "int \<Rightarrow> pystr" where
  "int_repr i = (if i < 0 then 45 # nat_repr (nat (- i)) else nat_repr (nat i))"

definition newline_indent :: "nat \<Rightarrow> pystr" where
  "newline_indent level = 10 # replicate (2 * level) 32"

text \<open>\<open>sep.join(chunks)\<close>\<close>

fun join :: "pystr \<Rightarrow> pystr list \<Rightarrow> pystr" where
  "join sep [] = []"
| "join sep [x] = x"
| "join sep (x # y # ys) = x @ sep @ join sep (y # ys)"

text \<open>
  The encoder at a nesting level; \<open>iterencode_list\<close> and \<open>iterencode_dict\<close> give the
  encoded items of a container in order and stop at the first item that raises.
\<close>

fun iterencode :: "nat \<Rightarrow> json \<Rightarrow> exn + pystr"
  and iterencode_list :: "nat \<Rightarrow> json list \<Rightarrow> exn + pystr list"
  and iterencode_dict :: "nat \<Rightarrow> (pystr \<times> json) list \<Rightarrow> exn + pystr list" where
  "iterencode level JNull = Inr (str ''null'')"
| "iterencode level (JBool b) = Inr (if b then str ''true'' else str ''false'')"
| "iterencode level (JInt i) = Inr (int_repr i)"
| "iterencode level (JStr s) = Inr (encode_basestring_ascii s)"
| "iterencode level (JList xs) =
     (if xs = [] then Inr (str ''[]'')
      else
        (case iterencode_list (level + 1) xs of
           Inl e \<Rightarrow> Inl e
         | Inr chunks \<Rightarrow>
             Inr (str ''['' @ newline_indent (level + 1)
                  @ join (44 # newline_indent (level + 1)) chunks
                  @ newline_indent level @ str '']'')))"
| "iterencode level (JDict kvs) =
     (if kvs = [] then Inr (str ''{}'')
      else
        (case iterencode_dict (level + 1) kvs of
           Inl e \<Rightarrow> Inl e
         | Inr chunks \<Rightarrow>
             Inr (str ''{'' @ newline_indent (level + 1)
                  @ join (44 # newline_indent (level + 1)) chunks
                  @ newline_indent level @ str ''}'')))"
| "iterencode level (JOther t) =
     Inl (Exception (str ''Object of type '' @ t @ str '' is not JSON serializable''))"
| "iterencode_list level [] = Inr []"
| "iterencode_list level (x # xs) =
     (case iterencode level x of
        Inl e \<Rightarrow> Inl e
      | Inr c \<Rightarrow>
          (case iterencode_list level xs of Inl e \<Rightarrow> Inl e | Inr cs \<Rightarrow> Inr (c # cs)))"
| "iterencode_dict level [] = Inr []"
| "iterencode_dict level (kv # kvs) =
     (case iterencode level (snd kv) of
        Inl e \<Rightarrow> Inl e
      | Inr c \<Rightarrow>
          (case iterencode_dict level kvs of
             Inl e \<Rightarrow> Inl e
           | Inr cs \<Rightarrow> Inr ((encode_basestring_ascii (fst kv) @ str '': '' @ c) # cs)))"

definition json_dumps :: "json \<Rightarrow> exn + pystr" where
  "json_dumps data = iterencode 0 data"

text \<open>
  \<open>s.encode("utf-8")\<close>; a surrogate code point raises \<open>UnicodeEncodeError\<close>.
\<close>

definition utf8_char :: "nat \<Rightarrow> exn + bytes" where
  "utf8_char c =
     (if c < 128 then Inr [word_of_nat c]
      else if c < 2048 then Inr [word_of_nat (192 + c div 64), word_of_nat (128 + c mod 64)]
      else if 55296 \<le> c \<and> c \<le> 57343 then Inl (Exception (str ''surrogates not allowed''))
      else if c < 65536 then
        Inr [word_of_nat (224 + c div 4096), word_of_nat (128 + c div 64 mod 64),
             word_of_nat (128 + c mod 64)]
      else
        Inr [word_of_nat (240 + c div 262144 mod 8), word_of_nat (128 + c div 4096 mod 64),
             word_of_nat (128 + c div 64 mod 64), word_of_nat (128 + c mod 64)])"

fun encode_utf8 :: "pystr \<Rightarrow> exn + bytes" where
  "encode_utf8 [] = Inr []"
| "encode_utf8 (c # cs) =
     (case utf8_char c of
        Inl e \<Rightarrow> Inl e
      | Inr b \<Rightarrow> (case encode_utf8 cs of Inl e \<Rightarrow> Inl e | Inr bs \<Rightarrow> Inr (b @ bs)))"

text \<open>\<open>json.dumps(data, indent=2).encode("utf-8")\<close>\<close>

definition json_bytes :: "(pystr \<times> json) list \<Rightarrow> exn + bytes" where
  "json_bytes data =
     (case json_dumps (JDict data) of Inl x \<Rightarrow> Inl x | Inr s \<Rightarrow> encode_utf8 s)"

text \<open>\<open>filename or "data.json"\<close>\<close>

definition filename_tag :: "pystr option \<Rightarrow> pystr" where
  "filename_tag filename =
     (case filename of
        None \<Rightarrow> str ''data.json''
      | Some f \<Rightarrow> if f \<noteq> [] then f else str ''data.json'')"

definition upload_json ::
  "provider_config \<Rightarrow> env \<Rightarrow> (pystr \<times> json) list \<Rightarrow> pystr option \<Rightarrow> pystr option io" where
  "upload_json self e data filename =
     try_except
       (io_bind (io_of (json_bytes data)) (\<lambda>json_data.
        io_bind
          (put self e json_data (Some (str ''application/json''))
             (Some [(str ''filename'', filename_tag filename)]) None)
          (\<lambda>result. if success result then io_return (Some (cid result)) else io_return None)))
       (\<lambda>x. io_return None)"

section \<open>The two shapes of a result\<close>

text \<open>
  A failed result carries an error message and the defaults of the other fields; a
  stored result carries the content identifier and the size of the payload.
\<close>

definition failed_result :: "StorageResult \<Rightarrow> bool" where
  "failed_result r \<longleftrightarrow> \<not> success r \<and> cid r = [] \<and> error r \<noteq> [] \<and> size_bytes r = 0"

definition stored_result :: "bytes \<Rightarrow> StorageResult \<Rightarrow> bool" where
  "stored_result blob r \<longleftrightarrow>
     success r \<and> cid r \<noteq> [] \<and> error r = [] \<and> size_bytes r = int (length blob)"

section \<open>Example inputs\<close>

text \<open>
  Concrete configurations and environments at which the theorems below are
  instantiated.
\<close>

definition example_config :: provider_config where
  "example_config =
     \<lparr>filecoin_pin_path = str ''filecoin-pin'', auto_fund = True, bare = False,
      verbose = False, private_key = None\<rparr>"

definition example_world :: world where
  "example_world = \<lparr>dirs = {}, calls = []\<rparr>"

definition example_dir :: pystr where
  "example_dir = str ''/tmp/chaoschain_filecoin_pin_a1''"

text \<open>An environment in which every call has the given outcome.\<close>

definition example_env ::
  "exn + pystr \<Rightarrow> exn option \<Rightarrow> exn + completed_process \<Rightarrow> env" where
  "example_env mk wr run =
     \<lparr>mkdtemp_outcome = (\<lambda>p. mk),
      write_bytes_outcome = (\<lambda>p b. wr),
      run_outcome = (\<lambda>c. run),
      rmtree_outcome = (\<lambda>p. True),
      import_requests_outcome = None,
      requests_get_outcome = (\<lambda>u. Inl (Exception (str ''connection refused'')))\<rparr>"

definition example_pinned :: completed_process where
  "example_pinned = \<lparr>returncode = 0, stdout = str ''Root CID: bafy'', stderr = []\<rparr>"

definition example_no_cid :: completed_process where
  "example_no_cid = \<lparr>returncode = 0, stdout = str ''done'', stderr = []\<rparr>"

definition example_empty_cid :: completed_process where
  "example_empty_cid = \<lparr>returncode = 0, stdout = str ''Root CID:'', stderr = []\<rparr>"

definition example_exit1 :: completed_process where
  "example_exit1 = \<lparr>returncode = 1, stdout = [], stderr = str ''no funds''\<rparr>"

definition example_response :: response where
  "example_response =
     \<lparr>status_code = 200,
      headers = [str ''Content-Type'' \<mapsto> str ''application/json'',
                 str ''Content-Length'' \<mapsto> str ''2''],
      content = [123, 125]\<rparr>"

text \<open>
  An environment in which the first gateway refuses the connection, the second answers
  200 and the others answer 404.
\<close>

definition example_gateway_env :: env where
  "example_gateway_env =
     \<lparr>mkdtemp_outcome = (\<lambda>p. Inl (Exception (str ''read-only file system''))),
      write_bytes_outcome = (\<lambda>p b. None),
      run_outcome = (\<lambda>c. Inl (Exception (str ''not found''))),
      rmtree_outcome = (\<lambda>p. True),
      import_requests_outcome = None,
      requests_get_outcome =
        (\<lambda>u. if u = str ''https://ipfs.io/ipfs/abc''
               then Inl (Exception (str ''connection refused''))
             else if u = str ''https://gateway.pinata.cloud/ipfs/abc'' then Inr example_response
             else Inr \<lparr>status_code = 404, headers = Map.empty, content = []\<rparr>)\<rparr>"

section \<open>Properties of the string operations\<close>

lemma startswith_append: "startswith (p @ r) p"
  by (induction p) auto

lemma startswith_decompose: "startswith s p \<Longrightarrow> s = p @ drop (length p) s"
  by (induction s p rule: startswith.induct) auto

lemma str_replace_absent:
  "old \<noteq> [] \<Longrightarrow> \<not> str_in old s \<Longrightarrow> str_replace s old new = s"
  by (induction s) auto

lemma str_replace_leading:
  assumes "old \<noteq> []"
  shows "str_replace (old @ r) old new = new @ str_replace r old new"
proof -
  from assms obtain c cs where old: "old = c # cs"
    by (cases old) auto
  have "str_replace ((c # cs) @ r) (c # cs) new =
        new @ str_replace (drop (length (c # cs)) ((c # cs) @ r)) (c # cs) new"
    using startswith_append [of "c # cs" r] by simp
  then show ?thesis
    by (simp add: old)
qed

lemma IPFS_SCHEME_nonempty: "IPFS_SCHEME \<noteq> []"
  by (simp add: IPFS_SCHEME_def str_def)

lemma str_replace_scheme:
  assumes "\<not> str_in IPFS_SCHEME (spec_strip_prefix s)"
  shows "str_replace s IPFS_SCHEME [] = spec_strip_prefix s"
proof (cases "startswith s IPFS_SCHEME")
  case True
  then have s: "s = IPFS_SCHEME @ drop (length IPFS_SCHEME) s"
    by (rule startswith_decompose)
  have rest: "\<not> str_in IPFS_SCHEME (drop (length IPFS_SCHEME) s)"
    using assms True by (simp add: spec_strip_prefix_def)
  have "str_replace (IPFS_SCHEME @ drop (length IPFS_SCHEME) s) IPFS_SCHEME [] =
        str_replace (drop (length IPFS_SCHEME) s) IPFS_SCHEME []"
    using str_replace_leading [OF IPFS_SCHEME_nonempty] by simp
  also have "\<dots> = drop (length IPFS_SCHEME) s"
    using rest by (rule str_replace_absent [OF IPFS_SCHEME_nonempty])
  finally show ?thesis
    using s True by (simp add: spec_strip_prefix_def)
next
  case False
  then show ?thesis
    using assms by (simp add: spec_strip_prefix_def str_replace_absent IPFS_SCHEME_nonempty)
qed

section \<open>Claims about \<open>verify\<close>\<close>

text \<open>
  C7 as stated: for every pair of strings, \<open>verify\<close> returns true exactly when the two
  strings are equal after stripping the leading \<open>ipfs://\<close> prefix from each.  The code
  calls \<open>replace\<close>, which deletes every occurrence of \<open>ipfs://\<close> and not only a leading
  one: \<open>verify("abcipfs://", "abc")\<close> is true although the two strings differ after
  prefix stripping.
\<close>

theorem verify_prefix_counterexample:
  "\<not> (verify (str ''abcipfs://'') (str ''abc'') \<longleftrightarrow>
      spec_strip_prefix (str ''abcipfs://'') = spec_strip_prefix (str ''abc''))"
  by (simp add: verify_def spec_strip_prefix_def IPFS_SCHEME_def str_def)

text \<open>
  C7 amended: for every pair of strings in which \<open>ipfs://\<close> does not occur again after
  the optional leading prefix, \<open>verify\<close> returns true exactly when the two strings are
  equal after stripping the leading \<open>ipfs://\<close> prefix from each.
\<close>

theorem verify_prefix_insensitive:
  assumes "\<not> str_in IPFS_SCHEME (spec_strip_prefix u)"
    and "\<not> str_in IPFS_SCHEME (spec_strip_prefix expected_hash)"
  shows "verify u expected_hash \<longleftrightarrow>
         spec_strip_prefix u = spec_strip_prefix expected_hash"
  using assms by (simp add: verify_def str_replace_scheme)

text \<open>The three examples of the specification are instances of the amended claim.\<close>

theorem verify_prefix_insensitive_witness:
  "verify (str ''ipfs://abc'') (str ''ipfs://abc'') \<and>
   verify (str ''ipfs://abc'') (str ''abc'') \<and>
   \<not> verify (str ''abc'') (str ''ipfs://xyz'')"
proof -
  have abc: "\<not> str_in IPFS_SCHEME (spec_strip_prefix (str ''ipfs://abc''))"
    by (simp add: spec_strip_prefix_def IPFS_SCHEME_def str_def)
  have bare: "\<not> str_in IPFS_SCHEME (spec_strip_prefix (str ''abc''))"
    by (simp add: spec_strip_prefix_def IPFS_SCHEME_def str_def)
  have xyz: "\<not> str_in IPFS_SCHEME (spec_strip_prefix (str ''ipfs://xyz''))"
    by (simp add: spec_strip_prefix_def IPFS_SCHEME_def str_def)
  have "spec_strip_prefix (str ''ipfs://abc'') = spec_strip_prefix (str ''abc'')"
    by (simp add: spec_strip_prefix_def IPFS_SCHEME_def str_def)
  moreover have "spec_strip_prefix (str ''abc'') \<noteq> spec_strip_prefix (str ''ipfs://xyz'')"
    by (simp add: spec_strip_prefix_def IPFS_SCHEME_def str_def)
  ultimately show ?thesis
    using verify_prefix_insensitive [OF abc abc] verify_prefix_insensitive [OF abc bare]
      verify_prefix_insensitive [OF bare xyz]
    by simp
qed

section \<open>Properties of \<open>put\<close>\<close>

lemma failure_fields [simp]:
  "success (failure m) = False" "cid (failure m) = []" "error (failure m) = m"
  "size_bytes (failure m) = 0"
  by (simp_all add: failure_def StorageResult_init_def)

lemma error_messages_nonempty:
  "NO_ROOT_CID_ERROR \<noteq> []" "COMMAND_FAILED_ERROR \<noteq> []" "TIMEOUT_ERROR \<noteq> []"
  by (simp_all add: NO_ROOT_CID_ERROR_def COMMAND_FAILED_ERROR_def TIMEOUT_ERROR_def str_def)

lemma failed_result_failure: "m \<noteq> [] \<Longrightarrow> failed_result (failure m)"
  by (simp add: failed_result_def)

lemma put_handler_returns: "\<exists>r. put_handler x w = (Inr r, w) \<and> failed_result r"
  by (cases x) (simp_all add: io_return_def error_messages_nonempty failed_result_def str_def)

lemma result_of_process_shape:
  assumes "result_of_process blob mime tags fn cp = Inr r"
  shows "failed_result r \<or> stored_result blob r"
  using assms
  by (auto simp: result_of_process_def Let_def error_messages_nonempty failed_result_failure
      stored_result_def split: if_splits sum.splits option.splits)

lemma put_body_unfold:
  "put_body self e blob mime tags w =
     (case mkdtemp_outcome e TEMP_PREFIX of
        Inl x \<Rightarrow> (Inl x, w\<lparr>calls := calls w @ [CallMkdtemp TEMP_PREFIX]\<rparr>)
      | Inr d \<Rightarrow>
          (case write_bytes_outcome e (path_join d (filename_for_mime mime)) blob of
             Some x \<Rightarrow>
               (Inl x,
                w\<lparr>dirs := insert d (dirs w),
                  calls := calls w @ [CallMkdtemp TEMP_PREFIX,
                    CallWriteBytes (path_join d (filename_for_mime mime)) blob]\<rparr>)
           | None \<Rightarrow>
               ((case run_outcome e
                        (build_command self (path_join d (filename_for_mime mime))) of
                   Inl x \<Rightarrow> Inl x
                 | Inr cp \<Rightarrow> result_of_process blob mime tags (filename_for_mime mime) cp),
                w\<lparr>dirs := (if rmtree_outcome e d then insert d (dirs w) - {d}
                           else insert d (dirs w)),
                  calls := calls w @ [CallMkdtemp TEMP_PREFIX,
                    CallWriteBytes (path_join d (filename_for_mime mime)) blob,
                    CallRun (build_command self (path_join d (filename_for_mime mime))) 300,
                    CallRmtree d]\<rparr>)))"
  by (simp add: put_body_def Let_def io_bind_def mkdtemp_def write_bytes_def try_finally_def
      subprocess_run_def rmtree_def io_of_def split: sum.splits option.splits)

lemma put_unfold:
  "put self e blob mime tags key w =
     (case put_body self e blob mime tags w of
        (Inl x, w') \<Rightarrow> put_handler x w'
      | (Inr r, w') \<Rightarrow> (Inr r, w'))"
  by (simp add: put_def try_except_def)

lemma parse_lines_root_cid:
  "parse_lines ls m = Inr m' \<Longrightarrow> \<forall>line\<in>set ls. \<not> str_in ROOT_CID_LABEL line \<Longrightarrow>
   root_cid m' = root_cid m"
proof (induction ls arbitrary: m)
  case Nil
  then show ?case by simp
next
  case (Cons line rest)
  from Cons.prems(2) have no: "\<not> str_in ROOT_CID_LABEL line"
    and rest: "\<forall>l\<in>set rest. \<not> str_in ROOT_CID_LABEL l"
    by simp_all
  from Cons.prems(1) no obtain m1 where "parse_lines rest m1 = Inr m'" "root_cid m1 = root_cid m"
    by (auto split: if_splits sum.splits option.splits)
  with Cons.IH [OF _ rest] show ?case by simp
qed

lemma put_body_Inr:
  assumes "put_body self e blob mime tags w = (Inr r, w')"
  shows "\<exists>d cp. mkdtemp_outcome e TEMP_PREFIX = Inr d \<and>
           write_bytes_outcome e (path_join d (filename_for_mime mime)) blob = None \<and>
           run_outcome e (build_command self (path_join d (filename_for_mime mime))) = Inr cp \<and>
           result_of_process blob mime tags (filename_for_mime mime) cp = Inr r"
  using assms
  by (auto simp: put_body_unfold split: sum.splits option.splits)

lemma put_returns_shape:
  "\<exists>r w'. put self e blob mime tags key w = (Inr r, w') \<and>
     (failed_result r \<or> stored_result blob r)"
proof (cases "put_body self e blob mime tags w")
  case (Pair res w1)
  show ?thesis
  proof (cases res)
    case (Inl x)
    with Pair have "put self e blob mime tags key w = put_handler x w1"
      by (simp add: put_unfold)
    with put_handler_returns [of x w1] show ?thesis
      by auto
  next
    case (Inr r)
    with Pair have eq: "put self e blob mime tags key w = (Inr r, w1)"
      by (simp add: put_unfold)
    from Pair Inr obtain cp
      where "result_of_process blob mime tags (filename_for_mime mime) cp = Inr r"
      using put_body_Inr by blast
    then have "failed_result r \<or> stored_result blob r"
      by (rule result_of_process_shape)
    with eq show ?thesis
      by blast
  qed
qed

lemma put_success_cases:
  assumes "put self e blob mime tags key w = (Inr r, w')" and "success r"
  shows "\<exists>d cp parsed.
           mkdtemp_outcome e TEMP_PREFIX = Inr d \<and>
           write_bytes_outcome e (path_join d (filename_for_mime mime)) blob = None \<and>
           run_outcome e (build_command self (path_join d (filename_for_mime mime))) = Inr cp \<and>
           returncode cp = 0 \<and> parse_cli_output (stdout cp) = Inr parsed \<and>
           root_cid parsed = Some (cid r)"
proof (cases "put_body self e blob mime tags w")
  case (Pair res w1)
  show ?thesis
  proof (cases res)
    case (Inl x)
    with Pair assms(1) have "put_handler x w1 = (Inr r, w')"
      by (simp add: put_unfold)
    with put_handler_returns [of x w1] assms(2) show ?thesis
      by (auto simp: failed_result_def)
  next
    case (Inr r1)
    with Pair assms(1) have "put_body self e blob mime tags w = (Inr r, w')"
      by (simp add: put_unfold)
    then obtain d cp where
      d: "mkdtemp_outcome e TEMP_PREFIX = Inr d"
        "write_bytes_outcome e (path_join d (filename_for_mime mime)) blob = None"
        "run_outcome e (build_command self (path_join d (filename_for_mime mime))) = Inr cp"
      and res: "result_of_process blob mime tags (filename_for_mime mime) cp = Inr r"
      using put_body_Inr by blast
    from res assms(2) have "returncode cp = 0 \<and>
        (\<exists>parsed. parse_cli_output (stdout cp) = Inr parsed \<and> root_cid parsed = Some (cid r))"
      by (auto simp: result_of_process_def Let_def split: if_splits sum.splits option.splits)
    with d show ?thesis
      by blast
  qed
qed

lemma parse_cli_output_root_cid:
  assumes "parse_cli_output out = Inr parsed"
    and "\<forall>line\<in>set (splitlines out). \<not> str_in ROOT_CID_LABEL line"
  shows "root_cid parsed = None"
  using parse_lines_root_cid [OF assms(1) [unfolded parse_cli_output_def] assms(2)]
  by simp

section \<open>Evaluation at the example inputs\<close>

lemma example_put_pinned:
  "\<exists>r. fst (put example_config (example_env (Inr example_dir) None (Inr example_pinned))
            [1, 2, 3] None None None example_world) = Inr r \<and>
        success r \<and> cid r = str ''bafy''"
  by (simp add: put_unfold put_body_unfold example_env_def example_pinned_def
      result_of_process_def parse_cli_output_def splitlines_def ROOT_CID_LABEL_def str_def
      field_after_def str_split_def item1_def strip_def isspace_def is_linebreak_def Let_def)

lemma example_put_exit1:
  "fst (put example_config (example_env (Inr example_dir) None (Inr example_exit1))
          [1] None None None example_world) = Inr (failure (str ''no funds''))"
  by (simp add: put_unfold put_body_unfold example_env_def example_exit1_def
      result_of_process_def strip_def isspace_def str_def)

lemma example_put_timeout:
  "fst (put example_config
          (example_env (Inr example_dir) None (Inl (TimeoutExpired (str ''timed out''))))
          [1] None None None example_world) = Inr (failure TIMEOUT_ERROR)"
  by (simp add: put_unfold put_body_unfold example_env_def io_return_def)

lemma example_put_write_fails:
  "put example_config
     (example_env (Inr example_dir) (Some (Exception (str ''No space left on device'')))
        (Inr example_pinned))
     [1] None None None example_world =
   (Inr (failure (str ''Storage error: No space left on device'')),
    \<lparr>dirs = {example_dir},
     calls = [CallMkdtemp TEMP_PREFIX,
              CallWriteBytes (path_join example_dir (str ''chaoschain_payload.bin'')) [1]]\<rparr>)"
  by (simp add: put_unfold put_body_unfold example_env_def example_world_def io_return_def
      filename_for_mime_def str_def)

section \<open>Claims about \<open>put\<close>\<close>

text \<open>
  C1: every \<open>StorageResult\<close> returned by \<open>put\<close> is in one of two states: \<open>success\<close> is
  true if and only if \<open>cid\<close> is non-empty, if and only if \<open>error\<close> is empty.
\<close>

theorem put_two_state_invariant:
  assumes "put self e blob mime tags key w = (Inr r, w')"
  shows "(success r \<longleftrightarrow> cid r \<noteq> []) \<and> (cid r \<noteq> [] \<longleftrightarrow> error r = [])"
proof -
  from put_returns_shape [of self e blob mime tags key w] assms
  have "failed_result r \<or> stored_result blob r"
    by auto
  then show ?thesis
    by (auto simp: failed_result_def stored_result_def)
qed

theorem put_two_state_invariant_witness:
  "\<exists>r w'. put example_config (example_env (Inr example_dir) None (Inr example_pinned))
            [1, 2, 3] None None None example_world = (Inr r, w') \<and>
     success r \<and> cid r \<noteq> [] \<and> error r = []"
proof -
  from example_put_pinned obtain r where
    r: "fst (put example_config (example_env (Inr example_dir) None (Inr example_pinned))
              [1, 2, 3] None None None example_world) = Inr r"
    and s: "success r"
    by blast
  from r have eq: "put example_config (example_env (Inr example_dir) None (Inr example_pinned))
      [1, 2, 3] None None None example_world =
      (Inr r, snd (put example_config (example_env (Inr example_dir) None (Inr example_pinned))
        [1, 2, 3] None None None example_world))"
    by (simp add: prod_eq_iff)
  from put_two_state_invariant [OF eq] s eq show ?thesis
    by blast
qed

text \<open>
  C2: whatever the outside does, \<open>put\<close> raises nothing and returns a result, and the
  result has \<open>success = True\<close> only if no step failed: the temporary directory was
  created, the payload was written, the tool returned with exit code zero, its output
  was parsed, and the parsed root CID is the non-empty \<open>cid\<close> of the result (so a
  \<open>Root CID:\<close> line was printed, with a value).  So every failure path (an exception
  while staging or running, a timeout, a non-zero exit, a missing or empty root CID)
  ends in a result with \<open>success = False\<close>.
\<close>

theorem put_never_raises:
  "\<exists>r w'. put self e blob mime tags key w = (Inr r, w') \<and>
     (success r \<longrightarrow>
        (\<exists>d cp parsed. mkdtemp_outcome e TEMP_PREFIX = Inr d \<and>
           write_bytes_outcome e (path_join d (filename_for_mime mime)) blob = None \<and>
           run_outcome e (build_command self (path_join d (filename_for_mime mime))) = Inr cp \<and>
           returncode cp = 0 \<and>
           parse_cli_output (stdout cp) = Inr parsed \<and>
           root_cid parsed = Some (cid r) \<and> cid r \<noteq> [] \<and>
           (\<exists>line\<in>set (splitlines (stdout cp)). str_in ROOT_CID_LABEL line)))"
proof -
  from put_returns_shape obtain r w' where eq: "put self e blob mime tags key w = (Inr r, w')"
    and shape: "failed_result r \<or> stored_result blob r"
    by blast
  have "\<exists>d cp parsed. mkdtemp_outcome e TEMP_PREFIX = Inr d \<and>
           write_bytes_outcome e (path_join d (filename_for_mime mime)) blob = None \<and>
           run_outcome e (build_command self (path_join d (filename_for_mime mime))) = Inr cp \<and>
           returncode cp = 0 \<and>
           parse_cli_output (stdout cp) = Inr parsed \<and>
           root_cid parsed = Some (cid r) \<and> cid r \<noteq> [] \<and>
           (\<exists>line\<in>set (splitlines (stdout cp)). str_in ROOT_CID_LABEL line)"
    if "success r"
  proof -
    from put_success_cases [OF eq that] obtain d cp parsed where
      d: "mkdtemp_outcome e TEMP_PREFIX = Inr d"
        "write_bytes_outcome e (path_join d (filename_for_mime mime)) blob = None"
        "run_outcome e (build_command self (path_join d (filename_for_mime mime))) = Inr cp"
        "returncode cp = 0"
      and p: "parse_cli_output (stdout cp) = Inr parsed" "root_cid parsed = Some (cid r)"
      by blast
    from shape that have nonempty: "cid r \<noteq> []"
      by (auto simp: failed_result_def stored_result_def)
    from p have "\<exists>line\<in>set (splitlines (stdout cp)). str_in ROOT_CID_LABEL line"
      using parse_cli_output_root_cid [of "stdout cp" parsed] by auto
    with d p nonempty show ?thesis
      by blast
  qed
  with eq show ?thesis
    by blast
qed

theorem put_never_raises_witness:
  "(\<exists>r w'. put example_config
            (example_env (Inr example_dir) None (Inl (TimeoutExpired (str ''timed out''))))
            [1] None None None example_world = (Inr r, w') \<and> \<not> success r) \<and>
   (\<exists>r w'. put example_config (example_env (Inr example_dir) None (Inr example_empty_cid))
            [1] None None None example_world = (Inr r, w') \<and> \<not> success r)"
proof
  show "\<exists>r w'. put example_config
            (example_env (Inr example_dir) None (Inl (TimeoutExpired (str ''timed out''))))
            [1] None None None example_world = (Inr r, w') \<and> \<not> success r"
    using put_never_raises [of example_config
        "example_env (Inr example_dir) None (Inl (TimeoutExpired (str ''timed out'')))"
        "[1]" None None None example_world]
    by (auto simp: example_env_def)
next
  have parsed: "parse_cli_output (str ''Root CID:'') =
      Inr \<lparr>root_cid = Some [], piece_cid = None, data_set_id = None,
           transaction_hash = None, file_size_display = None\<rparr>"
    by (simp add: parse_cli_output_def splitlines_def ROOT_CID_LABEL_def str_def
        field_after_def str_split_def item1_def strip_def is_linebreak_def)
  show "\<exists>r w'. put example_config (example_env (Inr example_dir) None (Inr example_empty_cid))
            [1] None None None example_world = (Inr r, w') \<and> \<not> success r"
    using put_never_raises [of example_config
        "example_env (Inr example_dir) None (Inr example_empty_cid)"
        "[1]" None None None example_world] parsed
    by (auto simp: example_env_def example_empty_cid_def)
qed

text \<open>
  C9 as stated: the result of \<open>put\<close> carries the byte length of the payload on success
  and on failure.  A failed result carries the default size 0: with a one-byte payload
  and a tool that exits with code 1 the size is 0.
\<close>

theorem put_size_counterexample:
  "fst (put example_config (example_env (Inr example_dir) None (Inr example_exit1))
          [1] None None None example_world) = Inr (failure (str ''no funds'')) \<and>
   size_bytes (failure (str ''no funds'')) \<noteq> int (length [1 :: 8 word])"
  using example_put_exit1 by simp

text \<open>
  C9 amended: the result of \<open>put\<close> carries the byte length of the payload when
  \<open>success\<close> is true, and the size 0 when \<open>success\<close> is false.
\<close>

theorem put_size:
  assumes "put self e blob mime tags key w = (Inr r, w')"
  shows "size_bytes r = (if success r then int (length blob) else 0)"
proof -
  from put_returns_shape [of self e blob mime tags key w] assms
  have "failed_result r \<or> stored_result blob r"
    by auto
  then show ?thesis
    by (auto simp: failed_result_def stored_result_def)
qed

theorem put_size_witness:
  "\<exists>r w'. put example_config (example_env (Inr example_dir) None (Inr example_pinned))
            [1, 2, 3] None None None example_world = (Inr r, w') \<and>
     success r \<and> size_bytes r = 3"
proof -
  from example_put_pinned obtain r where
    r: "fst (put example_config (example_env (Inr example_dir) None (Inr example_pinned))
              [1, 2, 3] None None None example_world) = Inr r"
    and s: "success r"
    by blast
  from r have eq: "put example_config (example_env (Inr example_dir) None (Inr example_pinned))
      [1, 2, 3] None None None example_world =
      (Inr r, snd (put example_config (example_env (Inr example_dir) None (Inr example_pinned))
        [1, 2, 3] None None None example_world))"
    by (simp add: prod_eq_iff)
  from put_size [OF eq] s have "size_bytes r = 3"
    by simp
  with s eq show ?thesis
    by blast
qed

text \<open>
  C10: the argument \<open>idempotency_key\<close> has no influence: for any two keys \<open>put\<close> makes
  the same calls (the same command, the same temporary file), leaves the same state and
  returns the same result.
\<close>

theorem put_ignores_idempotency_key:
  "put self e blob mime tags key1 w = put self e blob mime tags key2 w"
  by (simp add: put_def)

text \<open>
  C4 fails when writing the payload raises: the write is outside the inner \<open>try\<close>, so
  \<open>rmtree\<close> is never called and the temporary directory is still there when \<open>put\<close>
  returns its failure result.
\<close>

theorem put_leaves_temp_dir_when_write_fails:
  "put example_config
     (example_env (Inr example_dir) (Some (Exception (str ''No space left on device'')))
        (Inr example_pinned))
     [1] None None None example_world =
   (Inr (failure (str ''Storage error: No space left on device'')),
    \<lparr>dirs = {example_dir},
     calls = [CallMkdtemp TEMP_PREFIX,
              CallWriteBytes (path_join example_dir (str ''chaoschain_payload.bin'')) [1]]\<rparr>) \<and>
   example_dir \<notin> dirs example_world \<and>
   example_dir \<in> dirs \<lparr>dirs = {example_dir},
     calls = [CallMkdtemp TEMP_PREFIX,
              CallWriteBytes (path_join example_dir (str ''chaoschain_payload.bin'')) [1]]\<rparr>"
  using example_put_write_fails by (simp add: example_world_def)

text \<open>
  On every other path \<open>rmtree\<close> is called: once the payload is written, the directory
  that \<open>mkdtemp\<close> created does not exist when \<open>put\<close> returns, unless the removal
  itself fails (which \<open>ignore_errors=True\<close> hides).
\<close>

lemma put_removes_temp_dir_after_write:
  assumes "mkdtemp_outcome e TEMP_PREFIX = Inr d"
    and "write_bytes_outcome e (path_join d (filename_for_mime mime)) blob = None"
    and "rmtree_outcome e d"
  shows "d \<notin> dirs (snd (put self e blob mime tags key w))"
proof -
  let ?w = "w\<lparr>dirs := insert d (dirs w) - {d},
                calls := calls w @ [CallMkdtemp TEMP_PREFIX,
                  CallWriteBytes (path_join d (filename_for_mime mime)) blob,
                  CallRun (build_command self (path_join d (filename_for_mime mime))) 300,
                  CallRmtree d]\<rparr>"
  from assms have "snd (put_body self e blob mime tags w) = ?w"
    by (simp add: put_body_unfold)
  moreover have "snd (put self e blob mime tags key w) = snd (put_body self e blob mime tags w)"
  proof (cases "put_body self e blob mime tags w")
    case (Pair res w1)
    show ?thesis
    proof (cases res)
      case (Inl x)
      from put_handler_returns [of x w1] obtain r where "put_handler x w1 = (Inr r, w1)"
        by blast
      with Pair Inl show ?thesis
        by (simp add: put_unfold)
    next
      case (Inr r)
      with Pair show ?thesis
        by (simp add: put_unfold)
    qed
  qed
  ultimately show ?thesis
    by simp
qed

section \<open>The parser never raises\<close>

lemma split_from_nonempty: "split_from cur s sep \<noteq> []"
  by (induction cur s sep rule: split_from.induct) auto

lemma split_from_two:
  "sep \<noteq> [] \<Longrightarrow> str_in sep s \<Longrightarrow> \<exists>a b r. split_from cur s sep = a # b # r"
proof (induction cur s sep rule: split_from.induct)
  case (1 cur sep)
  then show ?case by simp
next
  case (2 cur c cs sep)
  show ?case
  proof (cases "startswith (c # cs) sep")
    case True
    obtain b r where "split_from [] (drop (length sep) (c # cs)) sep = b # r"
      using split_from_nonempty [of "[]" "drop (length sep) (c # cs)" sep]
      by (cases "split_from [] (drop (length sep) (c # cs)) sep") auto
    with True "2.prems"(1) show ?thesis
      by simp
  next
    case False
    with "2.prems" have "str_in sep cs"
      by simp
    with False "2.prems"(1) "2.IH"(2) show ?thesis
      by simp
  qed
qed

lemma field_after_returns:
  "label \<noteq> [] \<Longrightarrow> str_in label line \<Longrightarrow> \<exists>v. field_after line label = Inr v"
  using split_from_two [of label line "[]"]
  by (auto simp: field_after_def str_split_def item1_def)

lemma startswith_iff: "startswith s p \<longleftrightarrow> (\<exists>t. s = p @ t)"
  by (induction s p rule: startswith.induct) auto

lemma str_in_iff: "str_in sub s \<longleftrightarrow> (\<exists>a b. s = a @ sub @ b)"
proof (induction s)
  case Nil
  then show ?case by auto
next
  case (Cons c cs)
  show ?case
  proof
    assume "str_in sub (c # cs)"
    then consider "startswith (c # cs) sub" | "str_in sub cs"
      by auto
    then show "\<exists>a b. c # cs = a @ sub @ b"
    proof cases
      case 1
      then obtain t where "c # cs = sub @ t"
        by (auto simp: startswith_iff)
      then have "c # cs = [] @ sub @ t"
        by simp
      then show ?thesis
        by blast
    next
      case 2
      with Cons.IH obtain a b where "cs = a @ sub @ b"
        by blast
      then have "c # cs = (c # a) @ sub @ b"
        by simp
      then show ?thesis
        by blast
    qed
  next
    assume "\<exists>a b. c # cs = a @ sub @ b"
    then obtain a b where ab: "c # cs = a @ sub @ b"
      by blast
    show "str_in sub (c # cs)"
    proof (cases a)
      case Nil
      with ab have "startswith (c # cs) sub"
        by (auto simp: startswith_iff)
      then show ?thesis
        by simp
    next
      case (Cons x a')
      with ab have "cs = a' @ sub @ b"
        by simp
      with Cons.IH have "str_in sub cs"
        by blast
      then show ?thesis
        by simp
    qed
  qed
qed

lemma strip_inside: "\<exists>a b. s = a @ strip s @ b"
proof -
  let ?t = "dropWhile isspace s"
  have "s = takeWhile isspace s @ ?t"
    by simp
  moreover have "rev ?t = takeWhile isspace (rev ?t) @ dropWhile isspace (rev ?t)"
    by simp
  then have "?t = rev (dropWhile isspace (rev ?t)) @ rev (takeWhile isspace (rev ?t))"
    by (metis rev_append rev_rev_ident)
  ultimately have "s = takeWhile isspace s @ strip s @ rev (takeWhile isspace (rev ?t))"
    by (simp add: strip_def)
  then show ?thesis
    by blast
qed

lemma hash_line_has_label:
  assumes "startswith (strip line) HASH_LINE_PREFIX"
  shows "str_in HASH_LABEL line"
proof -
  from assms obtain t where t: "strip line = HASH_LINE_PREFIX @ t"
    by (auto simp: startswith_iff)
  obtain a b where "line = a @ strip line @ b"
    using strip_inside by blast
  with t have "line = (a @ [226, 8221, 8218, 32]) @ HASH_LABEL @ (t @ b)"
    by (simp add: HASH_LINE_PREFIX_def)
  then show ?thesis
    unfolding str_in_iff by blast
qed

lemma labels_nonempty:
  "ROOT_CID_LABEL \<noteq> []" "PIECE_CID_LABEL \<noteq> []" "DATA_SET_ID_LABEL \<noteq> []" "HASH_LABEL \<noteq> []"
  by (simp_all add: ROOT_CID_LABEL_def PIECE_CID_LABEL_def DATA_SET_ID_LABEL_def
      HASH_LABEL_def str_def)

lemma parse_lines_returns: "\<exists>m'. parse_lines ls m = Inr m'"
proof (induction ls arbitrary: m)
  case Nil
  then show ?case by simp
next
  case (Cons line rest)
  consider (root) "str_in ROOT_CID_LABEL line"
    | (piece) "\<not> str_in ROOT_CID_LABEL line" "str_in PIECE_CID_LABEL line"
    | (dataset) "\<not> str_in ROOT_CID_LABEL line" "\<not> str_in PIECE_CID_LABEL line"
        "str_in DATA_SET_ID_LABEL line"
    | (hash) "\<not> str_in ROOT_CID_LABEL line" "\<not> str_in PIECE_CID_LABEL line"
        "\<not> str_in DATA_SET_ID_LABEL line" "startswith (strip line) HASH_LINE_PREFIX"
    | (other) "\<not> str_in ROOT_CID_LABEL line" "\<not> str_in PIECE_CID_LABEL line"
        "\<not> str_in DATA_SET_ID_LABEL line" "\<not> startswith (strip line) HASH_LINE_PREFIX"
    by blast
  then show ?case
  proof cases
    case root
    then obtain v where "field_after line ROOT_CID_LABEL = Inr v"
      using field_after_returns labels_nonempty(1) by blast
    with root Cons.IH show ?thesis
      by simp
  next
    case piece
    then obtain v where "field_after line PIECE_CID_LABEL = Inr v"
      using field_after_returns labels_nonempty(2) by blast
    with piece Cons.IH show ?thesis
      by simp
  next
    case dataset
    then obtain v where "field_after line DATA_SET_ID_LABEL = Inr v"
      using field_after_returns labels_nonempty(3) by blast
    with dataset Cons.IH show ?thesis
      by simp
  next
    case hash
    then obtain v where "field_after line HASH_LABEL = Inr v"
      using field_after_returns labels_nonempty(4) hash_line_has_label by blast
    with hash Cons.IH show ?thesis
      by simp
  next
    case other
    with Cons.IH show ?thesis
      by (simp split: option.splits)
  qed
qed

lemma parse_cli_output_without_root_cid:
  assumes "\<forall>line\<in>set (splitlines out). \<not> str_in ROOT_CID_LABEL line"
  shows "\<exists>parsed. parse_cli_output out = Inr parsed \<and> root_cid parsed = None"
proof -
  obtain parsed where p: "parse_cli_output out = Inr parsed"
    using parse_lines_returns by (auto simp: parse_cli_output_def)
  with assms have "root_cid parsed = None"
    by (rule parse_cli_output_root_cid [rotated])
  with p show ?thesis
    by blast
qed

section \<open>Claim about a zero exit code without a root CID\<close>

text \<open>
  C5: if the tool exits with code zero and no line of its standard output contains
  \<open>Root CID:\<close>, then \<open>put\<close> returns a result with \<open>success = False\<close>, an empty \<open>cid\<close>
  and the dedicated, non-empty error message.
\<close>

theorem put_zero_exit_without_root_cid:
  assumes "mkdtemp_outcome e TEMP_PREFIX = Inr d"
    and "write_bytes_outcome e (path_join d (filename_for_mime mime)) blob = None"
    and "run_outcome e (build_command self (path_join d (filename_for_mime mime))) = Inr cp"
    and "returncode cp = 0"
    and "\<forall>line\<in>set (splitlines (stdout cp)). \<not> str_in ROOT_CID_LABEL line"
  shows "\<exists>r w'. put self e blob mime tags key w = (Inr r, w') \<and>
           \<not> success r \<and> cid r = [] \<and> error r = NO_ROOT_CID_ERROR \<and> error r \<noteq> []"
proof -
  from assms(5) obtain parsed
    where "parse_cli_output (stdout cp) = Inr parsed" "root_cid parsed = None"
    using parse_cli_output_without_root_cid by blast
  with assms(4)
  have "result_of_process blob mime tags (filename_for_mime mime) cp =
          Inr (failure NO_ROOT_CID_ERROR)"
    by (simp add: result_of_process_def)
  with assms(1-3)
  have "fst (put self e blob mime tags key w) = Inr (failure NO_ROOT_CID_ERROR)"
    by (simp add: put_unfold put_body_unfold)
  then have "put self e blob mime tags key w =
      (Inr (failure NO_ROOT_CID_ERROR), snd (put self e blob mime tags key w))"
    by (simp add: prod_eq_iff)
  then show ?thesis
    using error_messages_nonempty(1) by (intro exI conjI) (assumption, simp_all)
qed

theorem put_zero_exit_without_root_cid_witness:
  "\<exists>r w'. put example_config (example_env (Inr example_dir) None (Inr example_no_cid))
            [1, 2, 3] None None None example_world = (Inr r, w') \<and>
     \<not> success r \<and> cid r = [] \<and> error r = NO_ROOT_CID_ERROR \<and> error r \<noteq> []"
proof -
  have lines: "\<forall>line\<in>set (splitlines (stdout example_no_cid)).
      \<not> str_in ROOT_CID_LABEL line"
    by (simp add: example_no_cid_def splitlines_def ROOT_CID_LABEL_def str_def
        is_linebreak_def)
  show ?thesis
    by (rule put_zero_exit_without_root_cid [where d = example_dir and cp = example_no_cid,
          OF _ _ _ _ lines])
      (simp_all add: example_env_def example_no_cid_def)
qed

section \<open>Properties of \<open>get\<close>\<close>

lemma get_attempt_fails:
  "gateway_fails e url \<Longrightarrow>
   get_attempt e url w = (Inr None, w\<lparr>calls := calls w @ [CallGet url 30]\<rparr>)"
  by (auto simp: get_attempt_def gateway_fails_def try_except_def io_bind_def requests_get_def
      io_return_def split: sum.splits)

lemma get_attempt_answers:
  "requests_get_outcome e url = Inr resp \<Longrightarrow> status_code resp = 200 \<Longrightarrow>
   get_attempt e url w =
     (Inr (Some (content resp,
        \<lparr>content_type = headers resp (str ''Content-Type''),
         content_length = headers resp (str ''Content-Length''),
         gateway = url\<rparr>)),
      w\<lparr>calls := calls w @ [CallGet url 30]\<rparr>)"
  by (simp add: get_attempt_def try_except_def io_bind_def requests_get_def io_return_def)

lemma get_loop_first_success:
  assumes "\<forall>url\<in>set failed. gateway_fails e url"
    and "requests_get_outcome e g = Inr resp" and "status_code resp = 200"
  shows "get_loop e (failed @ g # unused) w =
     (Inr (content resp,
        \<lparr>content_type = headers resp (str ''Content-Type''),
         content_length = headers resp (str ''Content-Length''),
         gateway = g\<rparr>),
      w\<lparr>calls := calls w @ map (\<lambda>url. CallGet url 30) (failed @ [g])\<rparr>)"
  using assms(1)
proof (induction failed arbitrary: w)
  case Nil
  then show ?case
    by (simp add: io_bind_def io_return_def get_attempt_answers [OF assms(2,3)])
next
  case (Cons url rest)
  then show ?case
    by (simp add: io_bind_def get_attempt_fails)
qed


lemma get_unfold:
  "import_requests_outcome e = None \<Longrightarrow>
   get e u w =
     (case get_loop e (gateways (str_replace u IPFS_SCHEME [])) w of
        (Inl x, w') \<Rightarrow>
          (Inl (Exception (str ''Error retrieving from IPFS: '' @ str_of_exn x)), w')
      | (Inr v, w') \<Rightarrow> (Inr v, w'))"
  by (simp add: get_def Let_def try_except_def io_bind_def import_requests_def io_raise_def
      split: prod.splits sum.splits)

section \<open>Claims about \<open>get\<close>\<close>

text \<open>
  C3: when the \<open>requests\<close> library is there and some gateway is the first to answer
  200, all gateways before it in the fixed list having failed, \<open>get\<close> returns the body
  of that response with its content type, its content length and the gateway's URL,
  and the requests it has issued are exactly those to the failed gateways and to the
  answering one, in the order of the list: none goes to a later gateway.
\<close>

theorem get_returns_first_success:
  assumes "import_requests_outcome e = None"
    and "gateways (str_replace u IPFS_SCHEME []) = failed @ g # unused"
    and "\<forall>url\<in>set failed. gateway_fails e url"
    and "requests_get_outcome e g = Inr resp"
    and "status_code resp = 200"
  shows "get e u w =
     (Inr (content resp,
        \<lparr>content_type = headers resp (str ''Content-Type''),
         content_length = headers resp (str ''Content-Length''),
         gateway = g\<rparr>),
      w\<lparr>calls := calls w @ map (\<lambda>url. CallGet url 30) (failed @ [g])\<rparr>)"
  using get_loop_first_success [OF assms(3-5), of unused w] assms(1,2)
  by (simp add: get_unfold)

theorem get_returns_first_success_witness:
  "get example_gateway_env (str ''ipfs://abc'') example_world =
     (Inr (content example_response,
        \<lparr>content_type = Some (str ''application/json''),
         content_length = Some (str ''2''),
         gateway = str ''https://gateway.pinata.cloud/ipfs/abc''\<rparr>),
      \<lparr>dirs = {},
       calls = [CallGet (str ''https://ipfs.io/ipfs/abc'') 30,
                CallGet (str ''https://gateway.pinata.cloud/ipfs/abc'') 30]\<rparr>)"
proof -
  have imp: "import_requests_outcome example_gateway_env = None"
    by (simp add: example_gateway_env_def)
  have gs: "gateways (str_replace (str ''ipfs://abc'') IPFS_SCHEME []) =
      [str ''https://ipfs.io/ipfs/abc''] @ str ''https://gateway.pinata.cloud/ipfs/abc'' #
      [str ''https://cloudflare-ipfs.com/ipfs/abc'', str ''https://dweb.link/ipfs/abc'']"
    by (simp add: gateways_def IPFS_SCHEME_def str_def)
  have failed: "\<forall>url\<in>set [str ''https://ipfs.io/ipfs/abc'']. gateway_fails example_gateway_env url"
    by (simp add: gateway_fails_def example_gateway_env_def)
  have answer: "requests_get_outcome example_gateway_env
      (str ''https://gateway.pinata.cloud/ipfs/abc'') = Inr example_response"
    by (simp add: example_gateway_env_def str_def)
  have ok: "status_code example_response = 200"
    by (simp add: example_response_def)
  show ?thesis
    using get_returns_first_success [OF imp gs failed answer ok, of example_world]
    by (simp add: example_world_def example_response_def str_def)
qed



section \<open>Claims about \<open>upload_json\<close>\<close>

lemma upload_json_unfold:
  "upload_json self e data filename w =
     (case json_bytes data of
        Inl x \<Rightarrow> (Inr None, w)
      | Inr json_data \<Rightarrow>
          (case put self e json_data (Some (str ''application/json''))
                  (Some [(str ''filename'', filename_tag filename)]) None w of
             (Inl x, w') \<Rightarrow> (Inr None, w')
           | (Inr r, w') \<Rightarrow> (Inr (if success r then Some (cid r) else None), w')))"
  by (simp add: upload_json_def try_except_def io_bind_def io_of_def io_return_def
      split: sum.splits prod.splits)

lemma example_put_pinned_any:
  "\<exists>r. fst (put example_config (example_env (Inr example_dir) None (Inr example_pinned))
            blob mime tags key example_world) = Inr r \<and>
        success r \<and> cid r = str ''bafy''"
  by (simp add: put_unfold put_body_unfold example_env_def example_pinned_def
      result_of_process_def parse_cli_output_def splitlines_def ROOT_CID_LABEL_def str_def
      field_after_def str_split_def item1_def strip_def isspace_def is_linebreak_def Let_def)

lemma example_json_bytes:
  "json_bytes [(str ''a'', JInt 1)] = Inr [123, 10, 32, 32, 34, 97, 34, 58, 32, 49, 10, 125]"
  by (simp add: json_bytes_def json_dumps_def encode_basestring_ascii_def escape_char_def
      int_repr_def newline_indent_def utf8_char_def str_def numeral_2_eq_2)

text \<open>
  C8 as stated: two dictionaries with the same key-value content serialize to identical
  bytes.  \<open>upload_json\<close> calls \<open>json.dumps\<close> without \<open>sort_keys\<close>, so the keys come in
  the order of insertion: \<open>{"a": 1, "b": 2}\<close> and \<open>{"b": 2, "a": 1}\<close> hold the same
  content and give different bytes.
\<close>

theorem upload_json_key_order_counterexample:
  "map_of [(str ''a'', JInt 1), (str ''b'', JInt 2)] =
     map_of [(str ''b'', JInt 2), (str ''a'', JInt 1)] \<and>
   json_bytes [(str ''a'', JInt 1), (str ''b'', JInt 2)] \<noteq>
     json_bytes [(str ''b'', JInt 2), (str ''a'', JInt 1)]"
proof
  show "map_of [(str ''a'', JInt 1), (str ''b'', JInt 2)] =
      map_of [(str ''b'', JInt 2), (str ''a'', JInt 1)]"
    by (auto simp: fun_eq_iff str_def)
  show "json_bytes [(str ''a'', JInt 1), (str ''b'', JInt 2)] \<noteq>
      json_bytes [(str ''b'', JInt 2), (str ''a'', JInt 1)]"
    by (simp add: json_bytes_def json_dumps_def encode_basestring_ascii_def escape_char_def
        int_repr_def newline_indent_def utf8_char_def str_def numeral_2_eq_2)
qed

text \<open>
  C8 amended: for every dictionary, \<open>upload_json\<close> raises nothing.  It serializes the
  dictionary to JSON bytes with the keys in the dictionary's own order (the bytes
  depend on the order of the items, not only on the content); when the serialization
  raises, it returns \<open>None\<close> and calls nothing; otherwise it stores the bytes by \<open>put\<close>
  with MIME type \<open>application/json\<close>, and returns exactly the \<open>cid\<close> of the result of
  \<open>put\<close> when that result has \<open>success = True\<close>, and \<open>None\<close> when it has not.
\<close>

theorem upload_json_returns_cid_of_put:
  "\<exists>out w'. upload_json self e data filename w = (Inr out, w') \<and>
     (case json_bytes data of
        Inl x \<Rightarrow> out = None \<and> w' = w
      | Inr json_data \<Rightarrow>
          (\<exists>r. put self e json_data (Some (str ''application/json''))
                  (Some [(str ''filename'', filename_tag filename)]) None w = (Inr r, w') \<and>
               out = (if success r then Some (cid r) else None)))"
proof (cases "json_bytes data")
  case (Inl x)
  then show ?thesis
    by (simp add: upload_json_unfold)
next
  case (Inr json_data)
  obtain r w' where "put self e json_data (Some (str ''application/json''))
      (Some [(str ''filename'', filename_tag filename)]) None w = (Inr r, w')"
    using put_returns_shape by blast
  with Inr show ?thesis
    by (simp add: upload_json_unfold)
qed

theorem upload_json_returns_cid_of_put_witness:
  "\<exists>w'. upload_json example_config (example_env (Inr example_dir) None (Inr example_pinned))
          [(str ''a'', JInt 1)] None example_world = (Inr (Some (str ''bafy'')), w')"
proof -
  let ?e = "example_env (Inr example_dir) None (Inr example_pinned)"
  from upload_json_returns_cid_of_put
    [of example_config ?e "[(str ''a'', JInt 1)]" None example_world]
  obtain out w' r where
    up: "upload_json example_config ?e [(str ''a'', JInt 1)] None example_world = (Inr out, w')"
    and p: "put example_config ?e [123, 10, 32, 32, 34, 97, 34, 58, 32, 49, 10, 125]
        (Some (str ''application/json'')) (Some [(str ''filename'', filename_tag None)]) None
        example_world = (Inr r, w')"
    and out: "out = (if success r then Some (cid r) else None)"
    by (auto simp: example_json_bytes)
  from example_put_pinned_any
    [of "[123, 10, 32, 32, 34, 97, 34, 58, 32, 49, 10, 125]" "Some (str ''application/json'')"
      "Some [(str ''filename'', filename_tag None)]" None] p
  have "success r \<and> cid r = str ''bafy''"
    by simp
  with up out show ?thesis
    by simp
qed

end
